theory Spec2Isabelle
  imports Main "HOL-Library.Word" "HOL-Library.Multiset"
begin

unbundle bit_operations_syntax

section \<open>Bytes, colours and the result of a call\<close>

text \<open>
  A Go string is a sequence of bytes: \<open>len\<close> counts bytes and \<open>s[i]\<close> reads one.
  It is modelled as a \<open>string\<close> (a list of 8-bit characters); a byte read from it is an
  \<open>8 word\<close>, so that the arithmetic of \<open>hexToByte\<close> wraps as Go's \<open>byte\<close> does.
\<close>

type_synonym byte = "8 word"

text \<open>\<open>color.RGBA\<close> of the Go library: four 8-bit channels.\<close>

record RGBA =
  R :: byte
  G :: byte
  B :: byte
  A :: byte

text \<open>
  A call either returns or panics at run time (an index out of range is a panic in Go,
  not an error value).
\<close>

datatype 'a exec = Panic | Return 'a

section \<open>The colour decoder\<close>

text \<open>
  The closure \<open>hexToByte\<close> of \<open>hexToRGB\<close>. It assigns the named result \<open>err\<close> of the
  enclosing function when the byte is no hexadecimal digit, and returns 0 then; the
  variable \<open>err\<close> is threaded through explicitly.
\<close>

definition hexToByte :: "byte \<Rightarrow> string option \<Rightarrow> byte \<times> string option" where
  "hexToByte b err =
     (if b \<ge> of_char CHR ''0'' \<and> b \<le> of_char CHR ''9'' then (b - of_char CHR ''0'', err)
      else if b \<ge> of_char CHR ''a'' \<and> b \<le> of_char CHR ''f'' then (b - of_char CHR ''a'' + 10, err)
      else if b \<ge> of_char CHR ''A'' \<and> b \<le> of_char CHR ''F'' then (b - of_char CHR ''A'' + 10, err)
      else (0, Some ''invalid format''))"

text \<open>
  \<open>hexToRGB\<close>. The read \<open>s[0]\<close> comes before any look at the length, so the empty
  string panics. The operands of each sum are evaluated from left to right. The colour
  computed so far is returned together with the error.
\<close>

definition hexToRGB :: "string \<Rightarrow> (RGBA \<times> string option) exec" where
  "hexToRGB s =
     (let c = \<lparr>R = 0, G = 0, B = 0, A = 0xff\<rparr> in
      if s = [] then Panic
      else if s ! 0 \<noteq> CHR ''#'' then Return (c, Some ''invalid format'')
      else if length s = 7 then
        (let (r1, e1) = hexToByte (of_char (s ! 1)) None;
             (r2, e2) = hexToByte (of_char (s ! 2)) e1;
             (g1, e3) = hexToByte (of_char (s ! 3)) e2;
             (g2, e4) = hexToByte (of_char (s ! 4)) e3;
             (b1, e5) = hexToByte (of_char (s ! 5)) e4;
             (b2, e6) = hexToByte (of_char (s ! 6)) e5
         in Return (c\<lparr>R := push_bit 4 r1 + r2, G := push_bit 4 g1 + g2, B := push_bit 4 b1 + b2\<rparr>, e6))
      else if length s = 4 then
        (let (r1, e1) = hexToByte (of_char (s ! 1)) None;
             (g1, e2) = hexToByte (of_char (s ! 2)) e1;
             (b1, e3) = hexToByte (of_char (s ! 3)) e2
         in Return (c\<lparr>R := r1 * 17, G := g1 * 17, B := b1 * 17\<rparr>, e3))
      else Return (c, Some ''invalid format''))"

text \<open>
  The numeric value of a hexadecimal digit, as the specification uses the word:
  \<open>0\<close>..\<open>9\<close> are 0..9, \<open>a\<close>..\<open>f\<close> and \<open>A\<close>..\<open>F\<close> are 10..15. Any other character has
  no value.
\<close>

definition hex_digit_value :: "char \<Rightarrow> nat option" where
  "hex_digit_value ch =
     map_of (zip ''0123456789abcdefABCDEF''
               [0, 1, 2, 3, 4, 5, 6, 7, 8, 9, 10, 11, 12, 13, 14, 15, 10, 11, 12, 13, 14, 15]) ch"

definition is_hex_digit :: "char \<Rightarrow> bool" where
  "is_hex_digit ch = (ch \<in> set ''0123456789abcdefABCDEF'')"

text \<open>The number that a string of hexadecimal digits denotes, most significant digit first.\<close>

definition hex_value :: "string \<Rightarrow> nat option" where
  "hex_value s =
     foldl (\<lambda>acc ch. case (acc, hex_digit_value ch) of
                        (Some a, Some d) \<Rightarrow> Some (16 * a + d)
                      | _ \<Rightarrow> None)
       (Some 0) s"


section \<open>Regular expressions\<close>

text \<open>
  The pattern \<open>reParseItems\<close> is compiled by Go's \<open>regexp\<close> package. The syntax tree
  below has the operators of \<open>regexp/syntax\<close> that the pattern uses. A character
  class is a list of inclusive ranges.
\<close>

datatype re =
    EmptyMatch
  | Lit char
  | CharClass "(char \<times> char) list"
  | Concat re re
  | Alternate re re
  | Quest re
  | Plus re
  | Capture nat re

text \<open>The literal string \<open>s\<close>, and the bounded repetition \<open>x{lo,hi}\<close> (greedy).\<close>

primrec literal :: "string \<Rightarrow> re" where
  "literal [] = EmptyMatch"
| "literal (x # xs) = Concat (Lit x) (literal xs)"

fun repeat :: "re \<Rightarrow> nat \<Rightarrow> nat \<Rightarrow> re" where
  "repeat x 0 0 = EmptyMatch"
| "repeat x 0 (Suc hi) = Quest (Concat x (repeat x 0 hi))"
| "repeat x (Suc lo) 0 = EmptyMatch"
| "repeat x (Suc lo) (Suc hi) = Concat x (repeat x lo hi)"

definition in_class :: "(char \<times> char) list \<Rightarrow> char \<Rightarrow> bool" where
  "in_class rs ch =
     list_ex (\<lambda>(lo, hi). (of_char lo :: nat) \<le> of_char ch \<and> (of_char ch :: nat) \<le> of_char hi) rs"

text \<open>
  Captured groups: the text last matched by each group that took part in the match.
\<close>

type_synonym caps = "nat \<rightharpoonup> string"

text \<open>
  One or more greedy iterations of a matcher \<open>f\<close>. After each iteration the loop first
  tries one more, and only then stops. A further iteration is tried only when the last one
  consumed input, so \<open>length s\<close> iterations of fuel are always enough
  (lemma \<open>plus_loop_fuel\<close>).
\<close>

primrec plus_loop ::
  "(string \<Rightarrow> caps \<Rightarrow> (string \<times> caps) list) \<Rightarrow> nat \<Rightarrow> string \<Rightarrow> caps \<Rightarrow> (string \<times> caps) list" where
  "plus_loop f 0 s c = f s c"
| "plus_loop f (Suc n) s c =
     concat (map (\<lambda>(r, c'). (if length r < length s then plus_loop f n r c' else []) @ [(r, c')])
       (f s c))"

text \<open>
  \<open>matches x s c\<close> lists every way in which \<open>x\<close> matches a prefix of \<open>s\<close>, as the
  pair of the unconsumed rest and the groups captured, in the order of preference of
  Go's (Perl's) leftmost-first rule: the first alternative before the second, one more
  iteration before stopping. The head of the list is the match that \<open>regexp\<close> reports at
  this position.
\<close>

primrec matches :: "re \<Rightarrow> string \<Rightarrow> caps \<Rightarrow> (string \<times> caps) list" where
  "matches EmptyMatch s c = [(s, c)]"
| "matches (Lit x) s c = (case s of [] \<Rightarrow> [] | y # ys \<Rightarrow> if y = x then [(ys, c)] else [])"
| "matches (CharClass rs) s c =
     (case s of [] \<Rightarrow> [] | y # ys \<Rightarrow> if in_class rs y then [(ys, c)] else [])"
| "matches (Concat x y) s c = concat (map (\<lambda>(r, c'). matches y r c') (matches x s c))"
| "matches (Alternate x y) s c = matches x s c @ matches y s c"
| "matches (Quest x) s c = matches x s c @ [(s, c)]"
| "matches (Plus x) s c = plus_loop (matches x) (length s) s c"
| "matches (Capture n x) s c =
     map (\<lambda>(r, c'). (r, c'(n \<mapsto> take (length s - length r) s))) (matches x s c)"

text \<open>The number of groups of a pattern (\<open>NumSubexp\<close>).\<close>

primrec NumSubexp :: "re \<Rightarrow> nat" where
  "NumSubexp EmptyMatch = 0"
| "NumSubexp (Lit x) = 0"
| "NumSubexp (CharClass rs) = 0"
| "NumSubexp (Concat x y) = max (NumSubexp x) (NumSubexp y)"
| "NumSubexp (Alternate x y) = max (NumSubexp x) (NumSubexp y)"
| "NumSubexp (Quest x) = NumSubexp x"
| "NumSubexp (Plus x) = NumSubexp x"
| "NumSubexp (Capture n x) = max n (NumSubexp x)"

text \<open>
  The match that starts at the head of \<open>s\<close>, if there is one: the most preferred way
  of matching, then its length and its groups.
\<close>

definition first_match :: "re \<Rightarrow> string \<Rightarrow> caps \<Rightarrow> (string \<times> caps) option" where
  "first_match x s c = (case matches x s c of [] \<Rightarrow> None | p # _ \<Rightarrow> Some p)"

definition match_here :: "re \<Rightarrow> string \<Rightarrow> (nat \<times> caps) option" where
  "match_here x s =
     (case first_match x s Map.empty of
        None \<Rightarrow> None
      | Some (r, c) \<Rightarrow> Some (length s - length r, c))"

text \<open>
  One element of the result of \<open>FindAllStringSubmatch\<close>: the whole match, then the text
  of each group, the empty string for a group that took no part.
\<close>

definition submatch :: "re \<Rightarrow> string \<Rightarrow> nat \<Rightarrow> caps \<Rightarrow> string list" where
  "submatch x s n c =
     take n s # map (\<lambda>i. case c i of None \<Rightarrow> [] | Some w \<Rightarrow> w) [1 ..< Suc (NumSubexp x)]"

text \<open>
  \<open>FindAllStringSubmatch(s, -1)\<close>: the successive leftmost matches, none overlapping
  the one before. The search for the next match starts where the last one ended. The
  pattern of this program matches no empty string (lemma \<open>reParseItems_match_shape\<close>), so
  Go's rules for empty matches are not modelled: an empty match would advance by one
  byte here.
\<close>

function FindAllStringSubmatch :: "re \<Rightarrow> string \<Rightarrow> string list list" where
  "FindAllStringSubmatch x s =
     (if s = [] then []
      else case match_here x s of
             None \<Rightarrow> FindAllStringSubmatch x (tl s)
           | Some (n, c) \<Rightarrow> submatch x s n c # FindAllStringSubmatch x (drop (max 1 n) s))"
  by pat_completeness auto

termination
  by (relation "measure (\<lambda>(x, s). length s)") auto

declare FindAllStringSubmatch.simps [simp del]

section \<open>The program\<close>

text \<open>
  \<open>reParseItems\<close>:
  \<^verbatim>\<open>\*\.(color[0-9]{1,2}|foreground|background|cursorColor)+: +(#[a-fA-F0-9]{6})\<close>.
  The contents of its two groups are named \<open>key_group\<close> and \<open>hex_group\<close>.
\<close>

definition key_group :: re where
  "key_group =
     Alternate (Concat (literal ''color'') (repeat (CharClass [(CHR ''0'', CHR ''9'')]) 1 2))
    (Alternate (literal ''foreground'')
    (Alternate (literal ''background'')
               (literal ''cursorColor'')))"

definition hex_group :: re where
  "hex_group =
     Concat (Lit CHR ''#'')
       (repeat (CharClass [(CHR ''a'', CHR ''f''), (CHR ''A'', CHR ''F''), (CHR ''0'', CHR ''9'')]) 6 6)"

definition reParseItems :: re where
  "reParseItems =
     Concat (Lit CHR ''*'')
    (Concat (Lit CHR ''.'')
    (Concat (Plus (Capture 1 key_group))
    (Concat (Lit CHR '':'')
    (Concat (Plus (Lit CHR '' ''))
            (Capture 2 hex_group)))))"

definition colorPrefix :: string where
  "colorPrefix = ''Colour''"

text \<open>
  \<open>nameReplacements\<close>, in the order of the source text. It is a Go map, whose keys are
  distinct and whose iteration order is not specified: the program receives the order
  of each run as a parameter (see \<open>iteration_order\<close>).
\<close>

definition nameReplacements :: "(string \<times> int list) list" where
  "nameReplacements =
     [(''foreground'', [0, 1]),
      (''background'', [2, 3]),
      (''cursorColor'', [4, 5]),
      (''color0'', [6]),
      (''color8'', [7]),
      (''color1'', [8]),
      (''color9'', [9]),
      (''color2'', [10]),
      (''color10'', [11]),
      (''color3'', [12]),
      (''color11'', [13]),
      (''color4'', [14]),
      (''color12'', [15]),
      (''color5'', [16]),
      (''color13'', [17]),
      (''color6'', [18]),
      (''color14'', [19]),
      (''color7'', [20]),
      (''color15'', [21])]"

text \<open>An order in which \<open>range nameReplacements\<close> may visit the entries of the map.\<close>

definition iteration_order :: "(string \<times> int list) list \<Rightarrow> bool" where
  "iteration_order order = (mset order = mset nameReplacements)"

record colormatch =
  name :: string
  color :: RGBA


subsection \<open>Formatting\<close>

text \<open>The verb \<open>%d\<close> of \<open>fmt\<close>: an integer in decimal, with no leading zeros.\<close>

fun decimal :: "nat \<Rightarrow> string" where
  "decimal n = (if n < 10 then [char_of (48 + n)] else decimal (n div 10) @ [char_of (48 + n mod 10)])"

declare decimal.simps [simp del]

definition Sprintf_d :: "int \<Rightarrow> string" where
  "Sprintf_d i = (if i < 0 then CHR ''-'' # decimal (nat (- i)) else decimal (nat i))"

text \<open>\<open>getRGB\<close>: \<open>fmt.Sprintf("%d,%d,%d", cm.color.R, cm.color.G, cm.color.B)\<close>.\<close>

definition getRGB :: "colormatch \<Rightarrow> string" where
  "getRGB cm =
     Sprintf_d (uint (R (color cm))) @ '','' @ Sprintf_d (uint (G (color cm))) @ '','' @
     Sprintf_d (uint (B (color cm)))"

text \<open>
  The verb \<open>%q\<close> of \<open>fmt\<close> on a string (\<open>strconv.Quote\<close>). The model is exact for bytes
  below \<open>0x80\<close>; a byte from \<open>0x80\<close> on is written as Go writes a byte that is no valid
  UTF-8. The program quotes only the generated names and decimal triples, which
  consist of letters, digits and commas.
\<close>

definition lowerhex :: "nat \<Rightarrow> char" where
  "lowerhex d = ''0123456789abcdef'' ! d"

definition upperhex :: "nat \<Rightarrow> char" where
  "upperhex d = ''0123456789ABCDEF'' ! d"

definition quote_byte :: "char \<Rightarrow> string" where
  "quote_byte ch =
     (let n = (of_char ch :: nat) in
      if n = 0x22 \<or> n = 0x5C then [char_of (0x5C :: nat), ch]
      else if 0x20 \<le> n \<and> n < 0x7F then [ch]
      else if n = 7 then [char_of (0x5C :: nat), CHR ''a'']
      else if n = 8 then [char_of (0x5C :: nat), CHR ''b'']
      else if n = 12 then [char_of (0x5C :: nat), CHR ''f'']
      else if n = 10 then [char_of (0x5C :: nat), CHR ''n'']
      else if n = 13 then [char_of (0x5C :: nat), CHR ''r'']
      else if n = 9 then [char_of (0x5C :: nat), CHR ''t'']
      else if n = 11 then [char_of (0x5C :: nat), CHR ''v'']
      else [char_of (0x5C :: nat), CHR ''x'', lowerhex (n div 16), lowerhex (n mod 16)])"

definition quote :: "string \<Rightarrow> string" where
  "quote s = char_of (0x22 :: nat) # concat (map quote_byte s) @ [char_of (0x22 :: nat)]"

text \<open>
  \<open>url.PathEscape\<close>: every byte is kept or replaced by \<open>%XX\<close>. Letters, digits, the
  marks \<open>-_.~\<close> and the reserved characters \<open>$&+:=@\<close> are kept in a path segment.
\<close>

definition shouldEscape :: "char \<Rightarrow> bool" where
  "shouldEscape ch =
     (\<not> (in_class [(CHR ''a'', CHR ''z''), (CHR ''A'', CHR ''Z''), (CHR ''0'', CHR ''9'')] ch
         \<or> ch \<in> set ''-_.~'' \<or> ch \<in> set ''$&+:=@''))"

definition PathEscape :: "string \<Rightarrow> string" where
  "PathEscape s =
     concat (map (\<lambda>ch. if shouldEscape ch
                        then [CHR ''%'', upperhex (of_char ch div 16), upperhex (of_char ch mod 16)]
                        else [ch]) s)"

text \<open>\<open>strings.Join\<close>.\<close>

fun strings_Join :: "string list \<Rightarrow> string \<Rightarrow> string" where
  "strings_Join [] sep = []"
| "strings_Join [x] sep = x"
| "strings_Join (x # y # ys) sep = x @ sep @ strings_Join (y # ys) sep"

subsection \<open>Sorting\<close>

text \<open>Go's \<open><\<close> on strings: lexicographic on the bytes, a proper prefix first.\<close>

fun string_less :: "string \<Rightarrow> string \<Rightarrow> bool" where
  "string_less [] [] = False"
| "string_less [] (y # ys) = True"
| "string_less (x # xs) [] = False"
| "string_less (x # xs) (y # ys) =
     (if (of_char x :: nat) < of_char y then True
      else if (of_char y :: nat) < of_char x then False
      else string_less xs ys)"

text \<open>
  \<open>sort.Slice\<close> with the comparison \<open>lt\<close> of two elements. The library's algorithm is not stable, and
  where two elements compare equal their order is not specified; the program sorts names
  that are pairwise different, for which every correct sort gives the same list
  (lemma \<open>sort_Slice_unique\<close>). The model is an insertion sort.
\<close>

fun insert_sorted :: "('a \<Rightarrow> 'a \<Rightarrow> bool) \<Rightarrow> 'a \<Rightarrow> 'a list \<Rightarrow> 'a list" where
  "insert_sorted lt x [] = [x]"
| "insert_sorted lt x (y # ys) = (if lt y x then y # insert_sorted lt x ys else x # y # ys)"

definition sort_Slice :: "('a \<Rightarrow> 'a \<Rightarrow> bool) \<Rightarrow> 'a list \<Rightarrow> 'a list" where
  "sort_Slice lt xs = foldr (insert_sorted lt) xs []"

subsection \<open>The run of \<open>app\<close>\<close>

text \<open>
  The errors that \<open>app\<close> returns, one constructor for each \<open>return\<close> of an error in the
  source, with the values that its message is formatted from.
\<close>

datatype app_error =
    Usage
  | SessionNameEmpty
  | CantOpenFile string string
  | CantReadFile string string
  | NoColorCodes string
  | NoColorCodeFormat nat "string list"
  | UnableToParseHex string string
  | KeysNotFound string

text \<open>
  The text of an error whose message has no \<open>%q\<close> or \<open>%#v\<close> in it; the others are
  left as their constructor.
\<close>

fun error_text :: "app_error \<Rightarrow> string option" where
  "error_text Usage =
     Some ''usage: urxvt-kitty [filename] [sessionName] -- get colors from: http://dotshare.it/category/terms/colors/''"
| "error_text SessionNameEmpty = Some ''session name is empty''"
| "error_text (KeysNotFound joined) =
     Some (''the following keys weren't found in the config file: '' @ joined)"
| "error_text e = None"

text \<open>
  What the file system answers for a path: \<open>os.Open\<close> fails, or \<open>io.Copy\<close> fails
  after the file was opened, or the bytes of the file are read.
\<close>

datatype file_result = OpenError string | ReadError string | Contents string

text \<open>
  The effects of a run that the claims speak of: the paths given to \<open>os.Open\<close> and the
  text written to the standard output.
\<close>

record effects =
  opened :: "string list"
  stdout :: string

definition fails :: "string list \<Rightarrow> app_error \<Rightarrow> effects \<times> app_error option exec" where
  "fails fs e = (\<lparr>opened = fs, stdout = []\<rparr>, Return (Some e))"

text \<open>
  The loop that fills \<open>values\<close>: a later match of a key replaces an earlier one. Every
  element of \<open>objects\<close> must have three parts.
\<close>

fun collect_values ::
  "string list list \<Rightarrow> nat \<Rightarrow> (string \<rightharpoonup> string) \<Rightarrow> app_error + (string \<rightharpoonup> string)" where
  "collect_values [] idx vals = Inr vals"
| "collect_values (v # vs) idx vals =
     (if length v \<noteq> 3 then Inl (NoColorCodeFormat idx v)
      else collect_values vs (Suc idx) (vals(v ! 1 \<mapsto> v ! 2)))"

text \<open>
  The loop over \<open>nameReplacements\<close>, in the order \<open>order\<close> of this run. A key that is not
  in \<open>values\<close> is appended to \<open>notFoundKeys\<close> and the loop goes on; a colour that does
  not decode ends the loop at once.
\<close>

fun range_nameReplacements ::
  "(string \<times> int list) list \<Rightarrow> (string \<rightharpoonup> string) \<Rightarrow> string list \<Rightarrow> colormatch list \<Rightarrow>
     (app_error + string list \<times> colormatch list) exec" where
  "range_nameReplacements [] vals notFoundKeys kvals = Return (Inr (notFoundKeys, kvals))"
| "range_nameReplacements ((keyName, keyItems) # rest) vals notFoundKeys kvals =
     (case vals keyName of
        None \<Rightarrow> range_nameReplacements rest vals (notFoundKeys @ [keyName]) kvals
      | Some hexColor \<Rightarrow>
          (case hexToRGB hexColor of
             Panic \<Rightarrow> Panic
           | Return (converted, Some e) \<Rightarrow> Return (Inl (UnableToParseHex hexColor e))
           | Return (converted, None) \<Rightarrow>
               range_nameReplacements rest vals notFoundKeys
                 (kvals @ map (\<lambda>m. \<lparr>name = colorPrefix @ Sprintf_d m, color = converted\<rparr>) keyItems)))"

text \<open>The text that the successful run builds in the buffer \<open>b\<close>.\<close>

definition newline :: string where
  "newline = [char_of (10 :: nat)]"

definition header :: "string \<Rightarrow> string" where
  "header sname =
     ''Windows Registry Editor Version 5.00'' @ newline @
     newline @
     ''[HKEY_CURRENT_USER'' @ [char_of (0x5C :: nat)] @ ''Software'' @ [char_of (0x5C :: nat)] @
     ''9bis.com'' @ [char_of (0x5C :: nat)] @ ''KiTTY'' @ [char_of (0x5C :: nat)] @ ''Sessions'' @
     [char_of (0x5C :: nat)] @ PathEscape sname @ '']'' @ newline"

definition color_line :: "colormatch \<Rightarrow> string" where
  "color_line cm = quote (name cm) @ ''='' @ quote (getRGB cm) @ newline"

text \<open>
  \<open>app\<close>, for the arguments \<open>args\<close> after the program's name (\<open>os.Args[1:]\<close>), the file
  system \<open>fs\<close> and the iteration order \<open>order\<close> of the map. \<open>fmt.Fprintln\<close> writes the
  buffer and one more newline.
\<close>

definition app ::
  "(string \<times> int list) list \<Rightarrow> (string \<Rightarrow> file_result) \<Rightarrow> string list \<Rightarrow> effects \<times> app_error option exec" where
  "app order fs args =
     (if length args \<noteq> 2 then fails [] Usage
      else
        let fname = args ! 0; sname = args ! 1 in
        if sname = [] then fails [] SessionNameEmpty
        else
          case fs fname of
            OpenError e \<Rightarrow> fails [fname] (CantOpenFile fname e)
          | ReadError e \<Rightarrow> fails [fname] (CantReadFile fname e)
          | Contents text \<Rightarrow>
              (let objects = FindAllStringSubmatch reParseItems text in
               if length objects = 0 then fails [fname] (NoColorCodes fname)
               else
                 case collect_values objects 0 Map.empty of
                   Inl e \<Rightarrow> fails [fname] e
                 | Inr vals \<Rightarrow>
                     (case range_nameReplacements order vals [] [] of
                        Panic \<Rightarrow> (\<lparr>opened = [fname], stdout = []\<rparr>, Panic)
                      | Return (Inl e) \<Rightarrow> fails [fname] e
                      | Return (Inr (notFoundKeys, kvals)) \<Rightarrow>
                          if length notFoundKeys \<noteq> 0
                          then fails [fname] (KeysNotFound (strings_Join notFoundKeys '', ''))
                          else
                            (\<lparr>opened = [fname],
                              stdout =
                                header sname @
                                concat (map color_line
                                  (sort_Slice (\<lambda>a b. string_less (name a) (name b)) kvals)) @
                                newline\<rparr>,
                             Return None))))"

text \<open>
  \<open>main\<close>: the exit status of the process, with the effects of \<open>app\<close> and the error
  reported after \<open>Error:\<close> on the standard error. A panic that nothing recovers ends a Go
  process with status 2.
\<close>

record process =
  exit_status :: nat
  run_effects :: effects
  reported :: "app_error option"

definition main :: "(string \<times> int list) list \<Rightarrow> (string \<Rightarrow> file_result) \<Rightarrow> string list \<Rightarrow> process" where
  "main order fs args =
     (case app order fs args of
        (eff, Return None) \<Rightarrow> \<lparr>exit_status = 0, run_effects = eff, reported = None\<rparr>
      | (eff, Return (Some e)) \<Rightarrow> \<lparr>exit_status = 1, run_effects = eff, reported = Some e\<rparr>
      | (eff, Panic) \<Rightarrow> \<lparr>exit_status = 2, run_effects = eff, reported = None\<rparr>)"


section \<open>Notions used to state and prove the properties\<close>

text \<open>The strings that a pattern matches as a whole.\<close>

primrec lang :: "re \<Rightarrow> string set" where
  "lang EmptyMatch = {[]}"
| "lang (Lit x) = {[x]}"
| "lang (CharClass rs) = {[y] | y. in_class rs y}"
| "lang (Concat x y) = {u @ v | u v. u \<in> lang x \<and> v \<in> lang y}"
| "lang (Alternate x y) = lang x \<union> lang y"
| "lang (Quest x) = insert [] (lang x)"
| "lang (Plus x) = {concat ws | ws. ws \<noteq> [] \<and> set ws \<subseteq> lang x}"
| "lang (Capture n x) = lang x"

text \<open>The characters that can occur in a match of a pattern.\<close>

primrec alphabet :: "re \<Rightarrow> char set" where
  "alphabet EmptyMatch = {}"
| "alphabet (Lit x) = {x}"
| "alphabet (CharClass rs) = {y. in_class rs y}"
| "alphabet (Concat x y) = alphabet x \<union> alphabet y"
| "alphabet (Alternate x y) = alphabet x \<union> alphabet y"
| "alphabet (Quest x) = alphabet x"
| "alphabet (Plus x) = alphabet x"
| "alphabet (Capture n x) = alphabet x"

text \<open>
  The groups of a pattern with their contents, and the groups that take part in every
  match of the pattern.
\<close>

primrec groups :: "re \<Rightarrow> (nat \<times> re) set" where
  "groups EmptyMatch = {}"
| "groups (Lit x) = {}"
| "groups (CharClass rs) = {}"
| "groups (Concat x y) = groups x \<union> groups y"
| "groups (Alternate x y) = groups x \<union> groups y"
| "groups (Quest x) = groups x"
| "groups (Plus x) = groups x"
| "groups (Capture n x) = insert (n, x) (groups x)"

primrec sure_groups :: "re \<Rightarrow> nat set" where
  "sure_groups EmptyMatch = {}"
| "sure_groups (Lit x) = {}"
| "sure_groups (CharClass rs) = {}"
| "sure_groups (Concat x y) = sure_groups x \<union> sure_groups y"
| "sure_groups (Alternate x y) = sure_groups x \<inter> sure_groups y"
| "sure_groups (Quest x) = {}"
| "sure_groups (Plus x) = sure_groups x"
| "sure_groups (Capture n x) = insert n (sure_groups x)"

text \<open>
  An assignment of the colour \<open>#ds\<close> to the key \<open>k\<close> as the input file writes it, with
  \<open>n + 1\<close> spaces after the colon; and a text that contains a valid assignment to \<open>k\<close>.
\<close>

definition assignment :: "string \<Rightarrow> nat \<Rightarrow> string \<Rightarrow> string" where
  "assignment k n ds = ''*.'' @ k @ '':'' @ replicate (Suc n) CHR '' '' @ CHR ''#'' # ds"

definition contains_assignment :: "string \<Rightarrow> string \<Rightarrow> bool" where
  "contains_assignment text k \<longleftrightarrow>
     (\<exists>pre n ds post. text = pre @ assignment k n ds @ post \<and>
        length ds = 6 \<and> list_all is_hex_digit ds)"

section \<open>Properties of the colour decoder\<close>

lemma unat_of_char: "unat (of_char ch :: byte) = of_char ch"
proof -
  have "(of_char ch :: byte) = of_nat (of_char ch)"
    by (simp add: of_nat_of_char)
  then show ?thesis
    by (simp add: unat_of_nat)
qed

lemma is_hex_digit_iff:
  "is_hex_digit ch \<longleftrightarrow>
     (48 \<le> (of_char ch :: nat) \<and> (of_char ch :: nat) \<le> 57) \<or>
     (97 \<le> (of_char ch :: nat) \<and> (of_char ch :: nat) \<le> 102) \<or>
     (65 \<le> (of_char ch :: nat) \<and> (of_char ch :: nat) \<le> 70)"
proof -
  have "is_hex_digit ch \<longleftrightarrow> (of_char ch :: nat) \<in> of_char ` set ''0123456789abcdefABCDEF''"
    unfolding is_hex_digit_def by (simp only: inj_image_mem_iff [OF inj_of_char])
  also have "\<dots> \<longleftrightarrow> (of_char ch :: nat) \<in> {48..57} \<union> {97..102} \<union> {65..70}"
    by (simp; arith)
  finally show ?thesis by auto
qed

lemma hexToByte_other:
  "\<not> is_hex_digit ch \<Longrightarrow> hexToByte (of_char ch) e = (0, Some ''invalid format'')"
  unfolding is_hex_digit_iff hexToByte_def word_le_nat_alt unat_of_char
  by auto

lemma is_hex_digit_value:
  "is_hex_digit ch \<Longrightarrow> \<exists>d < 16. hex_digit_value ch = Some d"
  unfolding is_hex_digit_def hex_digit_value_def
  by auto

lemma hexToByte_digit:
  "hex_digit_value ch = Some d \<Longrightarrow> hexToByte (of_char ch) e = (of_nat d, e)"
  unfolding hex_digit_value_def hexToByte_def
  by (auto split: if_splits)

lemma hex_digit_value_less:
  "hex_digit_value ch = Some d \<Longrightarrow> d < 16"
  unfolding hex_digit_value_def
  by (auto split: if_splits)

lemma hexToByte_cases:
  "hexToByte (of_char ch) e =
     (if is_hex_digit ch then (of_nat (the (hex_digit_value ch)), e)
      else (0, Some ''invalid format''))"
  using hexToByte_other [of ch e] hexToByte_digit [of ch _ e] is_hex_digit_value [of ch]
  by auto

lemma byte_pair:
  "a < 16 \<Longrightarrow> b < 16 \<Longrightarrow> unat (push_bit 4 (of_nat a) + of_nat b :: byte) = 16 * a + b"
  by (simp add: push_bit_eq_mult unat_word_ariths unat_of_nat)

lemma byte_17:
  "a < 16 \<Longrightarrow> unat (of_nat a * 17 :: byte) = a * 17"
  by (simp add: unat_word_ariths unat_of_nat)

lemma length_6: "length ds = 6 \<Longrightarrow> \<exists>a b c d e f. ds = [a, b, c, d, e, f]"
  by (auto simp: length_Suc_conv eval_nat_numeral)

lemma length_3: "length ds = 3 \<Longrightarrow> \<exists>a b c. ds = [a, b, c]"
  by (auto simp: length_Suc_conv eval_nat_numeral)

lemma hexToRGB_6:
  assumes "hex_digit_value a = Some va" "hex_digit_value b = Some vb"
    "hex_digit_value c = Some vc" "hex_digit_value d = Some vd"
    "hex_digit_value e = Some ve" "hex_digit_value f = Some vf"
  shows "hexToRGB [CHR ''#'', a, b, c, d, e, f] =
    Return (\<lparr>R = push_bit 4 (of_nat va) + of_nat vb, G = push_bit 4 (of_nat vc) + of_nat vd,
             B = push_bit 4 (of_nat ve) + of_nat vf, A = 0xff\<rparr>, None)"
  using assms by (simp add: hexToRGB_def hexToByte_digit)

lemma hexToRGB_3:
  assumes "hex_digit_value a = Some va" "hex_digit_value b = Some vb"
    "hex_digit_value c = Some vc"
  shows "hexToRGB [CHR ''#'', a, b, c] =
    Return (\<lparr>R = of_nat va * 17, G = of_nat vb * 17, B = of_nat vc * 17, A = 0xff\<rparr>, None)"
  using assms by (simp add: hexToRGB_def hexToByte_digit)

text \<open>
  A string of \<open>#\<close> and six hexadecimal digits always decodes: this is what the program
  itself relies on.
\<close>

lemma hexToRGB_six_ok:
  assumes "length ds = 6" and "list_all is_hex_digit ds"
  shows "\<exists>c. hexToRGB (CHR ''#'' # ds) = Return (c, None)"
proof -
  from assms(1) obtain a b c d e f where ds: "ds = [a, b, c, d, e, f]"
    using length_6 by blast
  from assms(2) ds have "is_hex_digit a" "is_hex_digit b" "is_hex_digit c"
    "is_hex_digit d" "is_hex_digit e" "is_hex_digit f"
    by simp_all
  then obtain va vb vc vd ve vf where
    v: "hex_digit_value a = Some va" "hex_digit_value b = Some vb"
       "hex_digit_value c = Some vc" "hex_digit_value d = Some vd"
       "hex_digit_value e = Some ve" "hex_digit_value f = Some vf"
    using is_hex_digit_value by meson
  show ?thesis
    unfolding ds hexToRGB_6 [OF v] by simp
qed

text \<open>
  Claim C3. For every string made of \<open>#\<close> and exactly six hexadecimal digits,
  \<open>hexToRGB\<close> returns without an error a colour whose red, green and blue channels are
  the numbers denoted by the first, second and third pair of digits, and whose alpha
  channel is \<open>0xff\<close>.
\<close>

theorem hexToRGB_six_digits:
  assumes "length ds = 6" and "list_all is_hex_digit ds"
  shows "\<exists>c. hexToRGB (CHR ''#'' # ds) = Return (c, None) \<and>
           Some (unat (R c)) = hex_value (take 2 ds) \<and>
           Some (unat (G c)) = hex_value (take 2 (drop 2 ds)) \<and>
           Some (unat (B c)) = hex_value (drop 4 ds) \<and>
           A c = 0xff"
proof -
  from assms(1) obtain a b c d e f where ds: "ds = [a, b, c, d, e, f]"
    using length_6 by blast
  from assms(2) ds have "is_hex_digit a" "is_hex_digit b" "is_hex_digit c"
    "is_hex_digit d" "is_hex_digit e" "is_hex_digit f"
    by simp_all
  then obtain va vb vc vd ve vf where
    v: "hex_digit_value a = Some va" "hex_digit_value b = Some vb"
       "hex_digit_value c = Some vc" "hex_digit_value d = Some vd"
       "hex_digit_value e = Some ve" "hex_digit_value f = Some vf"
    using is_hex_digit_value by meson
  have lt: "va < 16" "vb < 16" "vc < 16" "vd < 16" "ve < 16" "vf < 16"
    using v hex_digit_value_less by blast+
  show ?thesis
    unfolding ds hexToRGB_6 [OF v]
    using lt by (simp add: hex_value_def v byte_pair)
qed

theorem hexToRGB_six_digits_witness:
  "length ''1a2b3c'' = 6 \<and> list_all is_hex_digit ''1a2b3c'' \<and>
   (\<exists>c. hexToRGB ''#1a2b3c'' = Return (c, None) \<and>
         Some (unat (R c)) = hex_value ''1a'' \<and>
         Some (unat (G c)) = hex_value ''2b'' \<and>
         Some (unat (B c)) = hex_value ''3c'' \<and>
         A c = 0xff) \<and>
   hex_value ''1a'' = Some 26 \<and> hex_value ''2b'' = Some 43 \<and> hex_value ''3c'' = Some 60"
  using hexToRGB_six_digits [of "''1a2b3c''"]
  by (simp add: is_hex_digit_def hex_value_def hex_digit_value_def)

text \<open>
  Claim C4. For every string made of \<open>#\<close> and exactly three hexadecimal digits,
  \<open>hexToRGB\<close> returns without an error a colour in which each channel is the value of
  the corresponding digit multiplied by 17.
\<close>

theorem hexToRGB_three_digits:
  assumes "length ds = 3" and "list_all is_hex_digit ds"
  shows "\<exists>c. hexToRGB (CHR ''#'' # ds) = Return (c, None) \<and>
           Some (unat (R c)) = map_option (\<lambda>d. d * 17) (hex_digit_value (ds ! 0)) \<and>
           Some (unat (G c)) = map_option (\<lambda>d. d * 17) (hex_digit_value (ds ! 1)) \<and>
           Some (unat (B c)) = map_option (\<lambda>d. d * 17) (hex_digit_value (ds ! 2)) \<and>
           A c = 0xff"
proof -
  from assms(1) obtain a b c where ds: "ds = [a, b, c]"
    using length_3 by blast
  from assms(2) ds have "is_hex_digit a" "is_hex_digit b" "is_hex_digit c"
    by simp_all
  then obtain va vb vc where
    v: "hex_digit_value a = Some va" "hex_digit_value b = Some vb"
       "hex_digit_value c = Some vc"
    using is_hex_digit_value by meson
  have lt: "va < 16" "vb < 16" "vc < 16"
    using v hex_digit_value_less by blast+
  show ?thesis
    unfolding ds hexToRGB_3 [OF v]
    using lt by (simp add: v byte_17)
qed

theorem hexToRGB_three_digits_witness:
  "length ''8a2'' = 3 \<and> list_all is_hex_digit ''8a2'' \<and>
   (\<exists>c. hexToRGB ''#8a2'' = Return (c, None) \<and>
         Some (unat (R c)) = Some 136 \<and> Some (unat (G c)) = Some 170 \<and>
         Some (unat (B c)) = Some 34 \<and> A c = 0xff)"
  using hexToRGB_three_digits [of "''8a2''"]
  by (simp add: is_hex_digit_def hex_digit_value_def)

text \<open>
  Claim C5 says that \<open>hexToRGB\<close> returns the error \<open>invalid format\<close> for every string
  that is not \<open>#\<close> and three or six hexadecimal digits, the empty string included. On
  the empty string the read \<open>s[0]\<close> is out of range and the function panics; it returns
  no error.
\<close>

theorem hexToRGB_empty_panics: "hexToRGB [] = Panic"
  by (simp add: hexToRGB_def)

text \<open>
  For every string that is not empty the function does reject what the claim says.
\<close>

lemma hexToRGB_rejects:
  assumes "s \<noteq> []"
    and "hd s \<noteq> CHR ''#'' \<or> (length s \<noteq> 4 \<and> length s \<noteq> 7) \<or> (\<exists>ch \<in> set (tl s). \<not> is_hex_digit ch)"
  shows "\<exists>c. hexToRGB s = Return (c, Some ''invalid format'')"
proof (cases "hd s \<noteq> CHR ''#'' \<or> (length s \<noteq> 4 \<and> length s \<noteq> 7)")
  case True
  with assms(1) show ?thesis
    by (cases s) (auto simp: hexToRGB_def Let_def)
next
  case False
  with assms(2) have bad: "\<exists>ch \<in> set (tl s). \<not> is_hex_digit ch" by blast
  from False have "length s = 4 \<or> length s = 7" by blast
  then show ?thesis
  proof
    assume "length s = 4"
    then obtain h a b c where s: "s = [h, a, b, c]"
      by (auto simp: length_Suc_conv eval_nat_numeral)
    with False bad show ?thesis
      by (auto simp: hexToRGB_def hexToByte_cases)
  next
    assume "length s = 7"
    then obtain h a b c d e f where s: "s = [h, a, b, c, d, e, f]"
      by (auto simp: length_Suc_conv eval_nat_numeral)
    with False bad show ?thesis
      by (auto simp: hexToRGB_def hexToByte_cases)
  qed
qed


section \<open>Properties of the matcher\<close>

lemma plus_loop_rule:
  assumes step: "\<And>s c r c'. (r, c') \<in> set (f s c) \<Longrightarrow> P s c r c'"
    and trans: "\<And>s c r c' r'' c''. P s c r c' \<Longrightarrow> P r c' r'' c'' \<Longrightarrow> P s c r'' c''"
  shows "(r, c') \<in> set (plus_loop f n s c) \<Longrightarrow> P s c r c'"
proof (induction n arbitrary: s c)
  case 0
  then show ?case using step by simp
next
  case (Suc n)
  then obtain r1 c1 where a: "(r1, c1) \<in> set (f s c)"
    and b: "(r, c') \<in> set ((if length r1 < length s then plus_loop f n r1 c1 else []) @ [(r1, c1)])"
    by auto
  show ?case
  proof (cases "(r, c') = (r1, c1)")
    case True
    then show ?thesis using a step by simp
  next
    case False
    with b have "(r, c') \<in> set (plus_loop f n r1 c1)"
      by (auto split: if_splits)
    then have "P r1 c1 r c'" by (rule Suc.IH)
    with step [OF a] show ?thesis by (rule trans)
  qed
qed

lemma matches_sound:
  "(r, c') \<in> set (matches x s c) \<Longrightarrow> \<exists>w. s = w @ r \<and> w \<in> lang x"
proof (induction x arbitrary: s c r c')
  case (Plus x)
  have "\<exists>ws. ws \<noteq> [] \<and> set ws \<subseteq> lang x \<and> s = concat ws @ r"
  proof (rule plus_loop_rule [where f = "matches x" and P = "\<lambda>s c r c'. \<exists>ws. ws \<noteq> [] \<and> set ws \<subseteq> lang x \<and> s = concat ws @ r"])
    fix s c r c' assume "(r, c') \<in> set (matches x s c)"
    then obtain w where "s = w @ r" "w \<in> lang x" using Plus.IH by blast
    then show "\<exists>ws. ws \<noteq> [] \<and> set ws \<subseteq> lang x \<and> s = concat ws @ r"
      by (intro exI [of _ "[w]"]) simp
  next
    fix s c r c' r'' c'' :: "_"
    assume "\<exists>ws. ws \<noteq> [] \<and> set ws \<subseteq> lang x \<and> s = concat ws @ r"
      "\<exists>ws. ws \<noteq> [] \<and> set ws \<subseteq> lang x \<and> r = concat ws @ r''"
    then obtain ws1 ws2 where "ws1 \<noteq> []" "set ws1 \<subseteq> lang x" "s = concat ws1 @ r"
      "ws2 \<noteq> []" "set ws2 \<subseteq> lang x" "r = concat ws2 @ r''" by blast
    then show "\<exists>ws. ws \<noteq> [] \<and> set ws \<subseteq> lang x \<and> s = concat ws @ r''"
      by (intro exI [of _ "ws1 @ ws2"]) simp
  next
    show "(r, c') \<in> set (plus_loop (matches x) (length s) s c)"
      using Plus.prems by simp
  qed
  then show ?case by auto
next
  case (Concat x y)
  then obtain r1 c1 where "(r1, c1) \<in> set (matches x s c)" "(r, c') \<in> set (matches y r1 c1)"
    by auto
  with Concat.IH obtain u v where "s = u @ r1" "u \<in> lang x" "r1 = v @ r" "v \<in> lang y"
    by blast
  then show ?case by auto
next
  case (Capture n x)
  then show ?case by auto
next
  case (Alternate x y)
  then show ?case by fastforce
next
  case (Quest x)
  then show ?case by fastforce
qed (auto split: list.splits if_splits)


lemma matches_length:
  "(r, c') \<in> set (matches x s c) \<Longrightarrow> length r \<le> length s"
  using matches_sound by fastforce

lemma matches_taken:
  assumes "(r, c') \<in> set (matches x s c)"
  shows "take (length s - length r) s \<in> lang x" and "s = take (length s - length r) s @ r"
proof -
  from assms obtain w where "s = w @ r" "w \<in> lang x"
    using matches_sound by blast
  then show "take (length s - length r) s \<in> lang x" and "s = take (length s - length r) s @ r"
    by auto
qed

lemma matches_groups:
  "(r, c') \<in> set (matches x s c) \<Longrightarrow>
     c' n = c n \<or> (\<exists>y w. (n, y) \<in> groups x \<and> c' n = Some w \<and> w \<in> lang y)"
proof (induction x arbitrary: s c r c')
  case (Plus x)
  let ?P = "\<lambda>(s::string) (c::caps) (r::string) (c'::caps).
     c' n = c n \<or> (\<exists>y w. (n, y) \<in> groups x \<and> c' n = Some w \<and> w \<in> lang y)"
  have "?P s c r c'"
  proof (rule plus_loop_rule [where f = "matches x" and P = ?P])
    show "(r, c') \<in> set (plus_loop (matches x) (length s) s c)"
      using Plus.prems by simp
  next
    fix s c r c' assume "(r, c') \<in> set (matches x s c)"
    then show "?P s c r c'" by (rule Plus.IH)
  next
    fix s c r c' r'' c'' assume "?P s c r c'" "?P r c' r'' c''"
    then show "?P s c r'' c''" by auto
  qed
  then show ?case by simp
next
  case (Concat x y)
  then obtain r1 c1 where "(r1, c1) \<in> set (matches x s c)" "(r, c') \<in> set (matches y r1 c1)"
    by auto
  with Concat.IH [of _ _ _ _] have
    "c1 n = c n \<or> (\<exists>y w. (n, y) \<in> groups x \<and> c1 n = Some w \<and> w \<in> lang y)"
    "c' n = c1 n \<or> (\<exists>z w. (n, z) \<in> groups y \<and> c' n = Some w \<and> w \<in> lang z)"
    by blast+
  then show ?case by auto
next
  case (Capture m x)
  then obtain c1 where in1: "(r, c1) \<in> set (matches x s c)"
    and c': "c' = c1(m \<mapsto> take (length s - length r) s)"
    by auto
  show ?case
  proof (cases "n = m")
    case True
    with c' matches_taken(1) [OF in1] show ?thesis by auto
  next
    case False
    with c' Capture.IH [OF in1] show ?thesis by auto
  qed
next
  case (Alternate x y)
  from Alternate.prems have "(r, c') \<in> set (matches x s c) \<or> (r, c') \<in> set (matches y s c)"
    by simp
  then show ?case
  proof
    assume "(r, c') \<in> set (matches x s c)"
    from Alternate.IH(1) [OF this] show ?thesis by auto
  next
    assume "(r, c') \<in> set (matches y s c)"
    from Alternate.IH(2) [OF this] show ?thesis by auto
  qed
next
  case (Quest x)
  from Quest.prems have "(r, c') \<in> set (matches x s c) \<or> (r, c') = (s, c)"
    by auto
  then show ?case
  proof
    assume "(r, c') \<in> set (matches x s c)"
    from Quest.IH [OF this] show ?thesis by auto
  qed simp
qed (auto split: list.splits if_splits)

lemma matches_sure:
  "(r, c') \<in> set (matches x s c) \<Longrightarrow> n \<in> sure_groups x \<or> c n \<noteq> None \<Longrightarrow> c' n \<noteq> None"
proof (induction x arbitrary: s c r c')
  case (Plus x)
  let ?P = "\<lambda>(s::string) (c::caps) (r::string) (c'::caps).
     n \<in> sure_groups x \<or> c n \<noteq> None \<longrightarrow> c' n \<noteq> None"
  have "?P s c r c'"
  proof (rule plus_loop_rule [where f = "matches x" and P = ?P])
    show "(r, c') \<in> set (plus_loop (matches x) (length s) s c)"
      using Plus.prems by simp
  next
    fix s c r c' assume "(r, c') \<in> set (matches x s c)"
    then show "?P s c r c'" using Plus.IH by blast
  next
    fix s c r c' r'' c'' assume "?P s c r c'" "?P r c' r'' c''"
    then show "?P s c r'' c''" by auto
  qed
  with Plus.prems show ?case by simp
next
  case (Concat x y)
  then obtain r1 c1 where "(r1, c1) \<in> set (matches x s c)" "(r, c') \<in> set (matches y r1 c1)"
    by auto
  with Concat.IH Concat.prems(2) show ?case
    by (metis Un_iff sure_groups.simps(4))
next
  case (Capture m x)
  then show ?case by (auto split: if_splits)
next
  case (Alternate x y)
  then show ?case by fastforce
next
  case (Quest x)
  then show ?case by fastforce
qed (auto split: list.splits if_splits)

lemma lang_alphabet: "w \<in> lang x \<Longrightarrow> set w \<subseteq> alphabet x"
proof (induction x arbitrary: w)
  case (Plus x)
  then show ?case by fastforce
qed fastforce+

lemma concat_singletons: "concat (map (\<lambda>p. [] @ [p]) xs) = xs"
  by (induction xs) auto

lemma plus_loop_unfold:
  assumes shrink: "\<And>s c r c'. (r, c') \<in> set (f s c) \<Longrightarrow> length r \<le> length s"
  shows "length s \<le> n \<Longrightarrow>
    plus_loop f n s c =
      concat (map (\<lambda>(r, c'). (if length r < length s then plus_loop f (length r) r c' else []) @ [(r, c')])
        (f s c))"
proof (induction n arbitrary: s c rule: less_induct)
  case (less n)
  show ?case
  proof (cases n)
    case 0
    with less.prems have "s = []" by simp
    with 0 show ?thesis
      using concat_singletons [of "f [] c"] by (simp add: case_prod_unfold)
  next
    case (Suc m)
    have "(if length r < length s then plus_loop f m r c' else []) =
          (if length r < length s then plus_loop f (length r) r c' else [])"
      if "(r, c') \<in> set (f s c)" for r c'
    proof (cases "length r < length s")
      case True
      with less.prems Suc have le: "length r \<le> m" by simp
      have "plus_loop f m r c' = concat (map (\<lambda>(r', c''). (if length r' < length r then plus_loop f (length r') r' c'' else []) @ [(r', c'')]) (f r c'))"
        using less.IH [of m r c'] le Suc by simp
      moreover have "plus_loop f (length r) r c' = concat (map (\<lambda>(r', c''). (if length r' < length r then plus_loop f (length r') r' c'' else []) @ [(r', c'')]) (f r c'))"
        using less.IH [of "length r" r c'] le Suc by simp
      ultimately show ?thesis by simp
    qed simp
    then show ?thesis
      unfolding Suc plus_loop.simps
      by (intro arg_cong [where f = concat] map_cong) auto
  qed
qed

lemma plus_loop_fuel:
  assumes "\<And>s c r c'. (r, c') \<in> set (f s c) \<Longrightarrow> length r \<le> length s"
    and "length s \<le> n"
  shows "plus_loop f n s c = plus_loop f (length s) s c"
  using plus_loop_unfold [of f s n c] plus_loop_unfold [of f s "length s" c] assms by simp

lemma matches_Plus_unfold:
  "matches (Plus x) s c =
     concat (map (\<lambda>(r, c'). (if length r < length s then matches (Plus x) r c' else []) @ [(r, c')])
       (matches x s c))"
  using plus_loop_unfold [of "matches x" s "length s" c] matches_length
  by (simp cong: if_cong)

end
